theory Spec2Isabelle
  imports Complex_Main
begin

section \<open>Data model of python/paddle/tensor/random.py\<close>

text \<open>
  The file under verification defines four wrappers, \<open>randint\<close>, \<open>randn\<close>, \<open>randperm\<close> and
  \<open>rand\<close>. Each one normalises its arguments and calls into the framework: the operator
  bindings \<open>core.ops\<close>, the layer functions \<open>uniform_random\<close> and \<open>gaussian_random\<close>, the
  \<open>LayerHelper\<close>, and a few utilities. None of these collaborators is defined in the file,
  so they are parameters of the model (the record \<open>env\<close> below). Python exceptions are
  values of the type \<open>error\<close>; a call returns \<open>(Inl e, s')\<close> when it raises and
  \<open>(Inr handle, s')\<close> when it returns, \<open>s'\<close> being the framework state it leaves behind.
\<close>

text \<open>
  Modelled from the spec: the data-type descriptor is "an enumeration value covering numeric
  element kinds". \<open>core.VarDesc.VarType\<close> is declared outside the file; the members below are
  the element kinds the docstrings of the file name (int32, int64, float32, float64) and the
  remaining numeric kinds of the enumeration.
\<close>

datatype VarType = BOOL | INT16 | INT32 | INT64 | FP16 | FP32 | FP64 | UINT8 | INT8

text \<open>
  What a caller may pass as \<open>dtype\<close>: \<open>None\<close>, a member of the enumeration, or any other
  descriptor (a string such as \<open>'int64'\<close>, or a numpy dtype, given by its name).
\<close>

datatype pydtype = DtNone | DtVarType VarType | DtStr string | DtNumpy string

text \<open>
  What a caller may pass as \<open>shape\<close>: a list or a tuple whose elements are integers or
  tensors (handles), a single tensor, or some other Python object (given by its repr).
\<close>

datatype dim = DimInt int | DimVar nat

datatype pyshape = ShapeList "dim list" | ShapeTuple "dim list" | ShapeVariable nat
  | ShapeOther string

datatype pytype = TyList | TyTuple | TyVariable | TyOther

fun type_of_shape :: "pyshape \<Rightarrow> pytype" where
  "type_of_shape (ShapeList ds) = TyList"
| "type_of_shape (ShapeTuple ds) = TyTuple"
| "type_of_shape (ShapeVariable v) = TyVariable"
| "type_of_shape (ShapeOther r) = TyOther"

text \<open>Python values that travel as operator attributes, inputs and keyword arguments.\<close>

datatype pyval = PNone | PInt int | PFloat real | PStr string | PDtype VarType
  | PShape pyshape | PIntList "int list" | PVar nat | PVarList "nat list"
  | PDict "(string \<times> pyval) list"

text \<open>
  Exceptions. \<open>TypeError\<close> carries the name of the offending argument, \<open>ValueError\<close> the
  message template and the values formatted into it, \<open>OtherError\<close> stands for whatever else
  a collaborator may raise.
\<close>

datatype error = TypeError string | ValueError string "int list" | OtherError string

text \<open>A tensor object (graph \<open>Variable\<close> or eager \<open>VarBase\<close>); a handle is its address.\<close>

record variable =
  var_dtype :: "VarType option"
  stop_gradient :: bool

record op_desc =
  op_type :: string
  op_inputs :: "(string \<times> pyval) list"
  op_outputs :: "(string \<times> nat) list"
  op_attrs :: "(string \<times> pyval) list"

text \<open>
  The framework state the wrappers see: the execution-mode flag read by
  \<open>in_dygraph_mode()\<close>, the store of tensor objects, the next free address, and the operator
  nodes of the caller-owned computation graph.
\<close>

record state =
  dygraph_mode :: bool
  vars :: "nat \<Rightarrow> variable"
  next_var :: nat
  graph_ops :: "op_desc list"

type_synonym 'a result = "(error + 'a) \<times> state"

record LayerHelper =
  layer_type :: string
  kwargs :: "(string \<times> pyval) list"

text \<open>
  The collaborators the file imports and calls. \<open>convert_np_dtype_to_dtype\<close> is
  \<open>convert_np_dtype_to_dtype_\<close> of \<open>fluid.framework\<close>; \<open>convert_shape_to_list\<close> and
  \<open>get_shape_tensor_inputs\<close> are \<open>utils._convert_shape_to_list\<close> and
  \<open>utils._get_shape_tensor_inputs\<close> (the latter updates the two dictionaries it is given in
  place: the model returns the updated pair); \<open>core_ops\<close> is \<open>core.ops.<name>(k1, v1, ...)\<close>
  with the alternating names and values paired up; \<open>create_variable_for_type_inference\<close> and
  \<open>append_op\<close> are the methods of \<open>LayerHelper\<close>.
\<close>

record env =
  convert_np_dtype_to_dtype :: "pydtype \<Rightarrow> error + VarType"
  convert_shape_to_list :: "pyshape \<Rightarrow> state \<Rightarrow> (int list) result"
  core_ops :: "string \<Rightarrow> (string \<times> pyval) list \<Rightarrow> state \<Rightarrow> nat result"
  get_shape_tensor_inputs :: "(string \<times> pyval) list \<Rightarrow> (string \<times> pyval) list \<Rightarrow> pyshape
    \<Rightarrow> string \<Rightarrow> state \<Rightarrow> ((string \<times> pyval) list \<times> (string \<times> pyval) list) result"
  create_variable_for_type_inference :: "LayerHelper \<Rightarrow> VarType \<Rightarrow> state \<Rightarrow> nat result"
  append_op :: "LayerHelper \<Rightarrow> op_desc \<Rightarrow> state \<Rightarrow> unit result"
  uniform_random :: "pyshape \<Rightarrow> pydtype \<Rightarrow> real \<Rightarrow> real \<Rightarrow> string option \<Rightarrow> state
    \<Rightarrow> nat result"
  gaussian_random :: "pyshape \<Rightarrow> real \<Rightarrow> real \<Rightarrow> int \<Rightarrow> pydtype \<Rightarrow> string option \<Rightarrow> state
    \<Rightarrow> nat result"

section \<open>Helpers\<close>

definition in_dygraph_mode :: "state \<Rightarrow> bool" where
  "in_dygraph_mode s = dygraph_mode s"

text \<open>\<open>out.stop_gradient = value\<close>: an attribute write on the object behind the handle.\<close>

definition set_stop_gradient :: "nat \<Rightarrow> bool \<Rightarrow> state \<Rightarrow> state" where
  "set_stop_gradient out b s = s\<lparr>vars := (vars s)(out := (vars s out)\<lparr>stop_gradient := b\<rparr>)\<rparr>"

text \<open>
  \<open>if not isinstance(dtype, core.VarDesc.VarType): dtype = convert_np_dtype_to_dtype_(dtype)\<close>
\<close>

definition coerce_dtype :: "env \<Rightarrow> pydtype \<Rightarrow> error + VarType" where
  "coerce_dtype env dtype =
     (case dtype of DtVarType d \<Rightarrow> Inr d | _ \<Rightarrow> convert_np_dtype_to_dtype env dtype)"

text \<open>
  Lines 116 to 118: \<open>if high is None: high = low; low = 0\<close>. The pair is (low, high)
  after the normalization.
\<close>

definition normalize_bounds :: "int \<Rightarrow> int option \<Rightarrow> int \<times> int" where
  "normalize_bounds low high = (case high of None \<Rightarrow> (0, low) | Some h \<Rightarrow> (low, h))"

text \<open>\<open>if dtype is None: dtype = '<default>'\<close>\<close>

definition default_dtype :: "pydtype \<Rightarrow> string \<Rightarrow> pydtype" where
  "default_dtype dtype dflt = (if dtype = DtNone then DtStr dflt else dtype)"

definition name_val :: "string option \<Rightarrow> pyval" where
  "name_val name = (case name of None \<Rightarrow> PNone | Some n \<Rightarrow> PStr n)"

text \<open>
  Modelled from the spec: \<open>convert_dtype\<close> of \<open>fluid.data_feeder\<close> is not in the file; it
  names a member of the enumeration the way the lists handed to \<open>check_dtype\<close> do.
\<close>

fun convert_dtype :: "VarType \<Rightarrow> string" where
  "convert_dtype BOOL = ''bool''"
| "convert_dtype INT16 = ''int16''"
| "convert_dtype INT32 = ''int32''"
| "convert_dtype INT64 = ''int64''"
| "convert_dtype FP16 = ''float16''"
| "convert_dtype FP32 = ''float32''"
| "convert_dtype FP64 = ''float64''"
| "convert_dtype UINT8 = ''uint8''"
| "convert_dtype INT8 = ''int8''"

text \<open>
  Modelled from the spec: \<open>check_type\<close> of \<open>fluid.data_feeder\<close> is not in the file. The spec
  has "input validation raising a typed error when shape is not one of the accepted
  representations", and the docstring of \<open>randint\<close> has "TypeError: If shape's type is not
  list, tuple or Variable".
\<close>

definition check_type :: "pyshape \<Rightarrow> string \<Rightarrow> pytype list \<Rightarrow> string \<Rightarrow> error + unit" where
  "check_type input input_name expected_type op_name =
     (if type_of_shape input \<in> set expected_type then Inr () else Inl (TypeError input_name))"

text \<open>
  Modelled from the spec: \<open>check_dtype\<close> of \<open>fluid.data_feeder\<close> is not in the file. The spec
  has a typed error "when the requested data type is outside the supported enumeration",
  and the docstring of \<open>randint\<close> has "TypeError: If dtype is not int32 or int64".
\<close>

definition check_dtype :: "VarType \<Rightarrow> string \<Rightarrow> string list \<Rightarrow> string \<Rightarrow> error + unit" where
  "check_dtype input_dtype input_name expected_dtype op_name =
     (if convert_dtype input_dtype \<in> set expected_dtype then Inr ()
      else Inl (TypeError input_name))"

section \<open>The four functions\<close>

text \<open>The two exceptions the file raises itself (lines 132 to 134, and line 264).\<close>

definition randint_value_error :: "int \<Rightarrow> int \<Rightarrow> error" where
  "randint_value_error low high =
     ValueError ''randint's low must less then high, but received low = {0}, high = {1}''
       [low, high]"

definition randperm_value_error :: error where
  "randperm_value_error =
     ValueError ''The input n should be greater than 0 in randperm op.'' []"

text \<open>
  \<open>helper = LayerHelper("randint", **locals())\<close> (line 141) and
  \<open>helper = LayerHelper("randperm", **locals())\<close> (line 268): the helper is built from the
  operator name and the local variables of the call at that point.
\<close>

definition randint_helper :: "int \<Rightarrow> int \<Rightarrow> pyshape \<Rightarrow> VarType \<Rightarrow> string option
    \<Rightarrow> (string \<times> pyval) list \<Rightarrow> (string \<times> pyval) list \<Rightarrow> LayerHelper" where
  "randint_helper low high shape dtype name inputs attrs =
     \<lparr>layer_type = ''randint'',
      kwargs = [(''low'', PInt low), (''high'', PInt high), (''shape'', PShape shape),
        (''dtype'', PDtype dtype), (''name'', name_val name), (''inputs'', PDict inputs),
        (''attrs'', PDict attrs)]\<rparr>"

definition randperm_helper :: "int \<Rightarrow> VarType \<Rightarrow> string option \<Rightarrow> LayerHelper" where
  "randperm_helper n dtype name =
     \<lparr>layer_type = ''randperm'',
      kwargs = [(''n'', PInt n), (''dtype'', PDtype dtype), (''name'', name_val name)]\<rparr>"

text \<open>\<open>randint(low=0, high=None, shape=[1], dtype=None, name=None)\<close>, lines 116 to 145.\<close>

definition randint ::
  "env \<Rightarrow> int \<Rightarrow> int option \<Rightarrow> pyshape \<Rightarrow> pydtype \<Rightarrow> string option \<Rightarrow> state \<Rightarrow> nat result"
where
  "randint env low0 high0 shape dtype0 name s =
     (let (low, high) = normalize_bounds low0 high0;
          dtype1 = default_dtype dtype0 ''int64''
      in case coerce_dtype env dtype1 of
           Inl e \<Rightarrow> (Inl e, s)
         | Inr dtype \<Rightarrow>
             if in_dygraph_mode s then
               (case convert_shape_to_list env shape s of
                  (Inl e, s1) \<Rightarrow> (Inl e, s1)
                | (Inr shape_list, s1) \<Rightarrow>
                    core_ops env ''randint''
                      [(''shape'', PIntList shape_list), (''low'', PInt low),
                       (''high'', PInt high), (''seed'', PInt 0), (''dtype'', PDtype dtype)] s1)
             else
               (case check_type shape ''shape'' [TyList, TyTuple, TyVariable] ''randint'' of
                  Inl e \<Rightarrow> (Inl e, s)
                | Inr _ \<Rightarrow>
               (case check_dtype dtype ''dtype'' [''int32'', ''int64''] ''randint'' of
                  Inl e \<Rightarrow> (Inl e, s)
                | Inr _ \<Rightarrow>
               if low \<ge> high then
                 (Inl (randint_value_error low high), s)
               else
               (case get_shape_tensor_inputs env []
                       [(''low'', PInt low), (''high'', PInt high), (''seed'', PInt 0),
                        (''dtype'', PDtype dtype)] shape ''randint'' s of
                  (Inl e, s1) \<Rightarrow> (Inl e, s1)
                | (Inr (inputs, attrs), s1) \<Rightarrow>
                    let helper = randint_helper low high shape dtype name inputs attrs
                    in (case create_variable_for_type_inference env helper dtype s1 of
                          (Inl e, s2) \<Rightarrow> (Inl e, s2)
                        | (Inr out, s2) \<Rightarrow>
                            (case append_op env helper
                                    \<lparr>op_type = ''randint'', op_inputs = inputs,
                                     op_outputs = [(''Out'', out)], op_attrs = attrs\<rparr> s2 of
                               (Inl e, s3) \<Rightarrow> (Inl e, s3)
                             | (Inr _, s3) \<Rightarrow> (Inr out, s3)))))))"

text \<open>\<open>randn(shape, dtype=None, name=None)\<close>, lines 211 to 217.\<close>

definition randn :: "env \<Rightarrow> pyshape \<Rightarrow> pydtype \<Rightarrow> string option \<Rightarrow> state \<Rightarrow> nat result" where
  "randn env shape dtype0 name s =
     (let dtype = default_dtype dtype0 ''float32''
      in case gaussian_random env shape 0 1 0 dtype name s of
           (Inl e, s1) \<Rightarrow> (Inl e, s1)
         | (Inr out, s1) \<Rightarrow> (Inr out, set_stop_gradient out True s1))"

text \<open>
  \<open>randperm(n, dtype="int64", name=None)\<close>, lines 257 to 274. The default of \<open>dtype\<close> is
  in the signature: a caller who leaves it out passes \<open>randperm_dtype_default\<close>.
\<close>

definition randperm_dtype_default :: pydtype where
  "randperm_dtype_default = DtStr ''int64''"

definition randperm :: "env \<Rightarrow> int \<Rightarrow> pydtype \<Rightarrow> string option \<Rightarrow> state \<Rightarrow> nat result" where
  "randperm env n dtype0 name s =
     (case coerce_dtype env dtype0 of
        Inl e \<Rightarrow> (Inl e, s)
      | Inr dtype \<Rightarrow>
          if in_dygraph_mode s then
            core_ops env ''randperm''
              [(''n'', PInt n), (''seed'', PInt 0), (''dtype'', PDtype dtype)] s
          else if n < 1 then
            (Inl randperm_value_error, s)
          else
            (case check_dtype dtype ''dtype'' [''int64'', ''int32'', ''float32'', ''float64'']
                    ''randperm'' of
               Inl e \<Rightarrow> (Inl e, s)
             | Inr _ \<Rightarrow>
                 let helper = randperm_helper n dtype name
                 in (case create_variable_for_type_inference env helper dtype s of
                       (Inl e, s1) \<Rightarrow> (Inl e, s1)
                     | (Inr out, s1) \<Rightarrow>
                         (case append_op env helper
                                 \<lparr>op_type = ''randperm'', op_inputs = [],
                                  op_outputs = [(''Out'', out)],
                                  op_attrs = [(''n'', PInt n), (''dtype'', PDtype dtype),
                                    (''seed'', PInt 0)]\<rparr> s1 of
                            (Inl e, s2) \<Rightarrow> (Inl e, s2)
                          | (Inr _, s2) \<Rightarrow> (Inr out, set_stop_gradient out True s2)))))"

text \<open>\<open>rand(shape, dtype=None, name=None)\<close>, lines 342 to 347.\<close>

definition rand :: "env \<Rightarrow> pyshape \<Rightarrow> pydtype \<Rightarrow> string option \<Rightarrow> state \<Rightarrow> nat result" where
  "rand env shape dtype0 name s =
     (let dtype = default_dtype dtype0 ''float32''
      in case uniform_random env shape dtype 0 1 name s of
           (Inl e, s1) \<Rightarrow> (Inl e, s1)
         | (Inr out, s1) \<Rightarrow> (Inr out, set_stop_gradient out True s1))"


section \<open>A sample runtime\<close>

text \<open>
  One concrete set of collaborators and two concrete states, used to run the functions on
  explicit inputs. The sample operator binding, layer functions and helper allocate a fresh
  tensor object whose \<open>stop_gradient\<close> flag is off; the sample operator and the sample shape
  conversion accept every argument.
\<close>

definition alloc :: "VarType option \<Rightarrow> state \<Rightarrow> nat result" where
  "alloc d s =
     (Inr (next_var s),
      s\<lparr>vars := (vars s)(next_var s := \<lparr>var_dtype = d, stop_gradient = False\<rparr>),
        next_var := Suc (next_var s)\<rparr>)"

definition sample_convert :: "pydtype \<Rightarrow> error + VarType" where
  "sample_convert dtype =
     (if dtype = DtStr ''int32'' then Inr INT32
      else if dtype = DtStr ''int64'' then Inr INT64
      else if dtype = DtStr ''float32'' then Inr FP32
      else if dtype = DtStr ''float64'' then Inr FP64
      else Inl (OtherError ''unsupported dtype''))"

fun dim_int :: "dim \<Rightarrow> int" where
  "dim_int (DimInt i) = i"
| "dim_int (DimVar v) = 1"

definition sample_shape_to_list :: "pyshape \<Rightarrow> state \<Rightarrow> (int list) result" where
  "sample_shape_to_list shape s =
     (Inr (case shape of ShapeList ds \<Rightarrow> map dim_int ds | ShapeTuple ds \<Rightarrow> map dim_int ds
           | _ \<Rightarrow> []), s)"

definition sample_core_ops :: "string \<Rightarrow> (string \<times> pyval) list \<Rightarrow> state \<Rightarrow> nat result" where
  "sample_core_ops op args s =
     alloc (case map_of args ''dtype'' of Some (PDtype d) \<Rightarrow> Some d | _ \<Rightarrow> None) s"

definition sample_shape_inputs :: "(string \<times> pyval) list \<Rightarrow> (string \<times> pyval) list \<Rightarrow> pyshape
    \<Rightarrow> string \<Rightarrow> state \<Rightarrow> ((string \<times> pyval) list \<times> (string \<times> pyval) list) result" where
  "sample_shape_inputs inputs attrs shape op s =
     (Inr (inputs, attrs @ [(''shape'', PShape shape)]), s)"

definition sample_append_op :: "LayerHelper \<Rightarrow> op_desc \<Rightarrow> state \<Rightarrow> unit result" where
  "sample_append_op helper node s = (Inr (), s\<lparr>graph_ops := graph_ops s @ [node]\<rparr>)"

definition sample_env :: env where
  "sample_env =
     \<lparr>convert_np_dtype_to_dtype = sample_convert,
      convert_shape_to_list = sample_shape_to_list,
      core_ops = sample_core_ops,
      get_shape_tensor_inputs = sample_shape_inputs,
      create_variable_for_type_inference = (\<lambda>helper d. alloc (Some d)),
      append_op = sample_append_op,
      uniform_random = (\<lambda>shape dtype lo hi name. alloc None),
      gaussian_random = (\<lambda>shape mean std seed dtype name. alloc None)\<rparr>"

text \<open>
  The sample runtime with the dtype coercion, the operator binding and the two methods of
  the helper replaced by functions that always raise: a call that returns a handle in this
  runtime has used none of them.
\<close>

definition no_dispatch_env :: env where
  "no_dispatch_env =
     sample_env\<lparr>convert_np_dtype_to_dtype := (\<lambda>dtype. Inl (OtherError ''no coercion'')),
       core_ops := (\<lambda>op args s. (Inl (OtherError ''no operator''), s)),
       create_variable_for_type_inference := (\<lambda>helper d s. (Inl (OtherError ''no helper''), s)),
       append_op := (\<lambda>helper node s. (Inl (OtherError ''no helper''), s))\<rparr>"

definition empty_state :: "bool \<Rightarrow> state" where
  "empty_state dygraph =
     \<lparr>dygraph_mode = dygraph, vars = (\<lambda>h. \<lparr>var_dtype = None, stop_gradient = False\<rparr>),
      next_var = 0, graph_ops = []\<rparr>"

lemmas sample_defs = sample_env_def sample_convert_def sample_shape_to_list_def
  sample_core_ops_def sample_shape_inputs_def sample_append_op_def alloc_def empty_state_def
  in_dygraph_mode_def coerce_dtype_def default_dtype_def normalize_bounds_def check_type_def
  check_dtype_def name_val_def set_stop_gradient_def

section \<open>The two execution paths\<close>

text \<open>
  In dygraph mode \<open>randint\<close> and \<open>randperm\<close> are the composition of the dtype coercion, the
  shape conversion (for \<open>randint\<close>) and the operator binding, and of nothing else.
\<close>

lemma randint_dygraph:
  "in_dygraph_mode s \<Longrightarrow>
   randint env low high shape dtype name s =
     (case coerce_dtype env (default_dtype dtype ''int64'') of
        Inl e \<Rightarrow> (Inl e, s)
      | Inr d \<Rightarrow>
          (case convert_shape_to_list env shape s of
             (Inl e, s1) \<Rightarrow> (Inl e, s1)
           | (Inr l, s1) \<Rightarrow>
               core_ops env ''randint''
                 [(''shape'', PIntList l), (''low'', PInt (fst (normalize_bounds low high))),
                  (''high'', PInt (snd (normalize_bounds low high))), (''seed'', PInt 0),
                  (''dtype'', PDtype d)] s1))"
  by (simp add: randint_def Let_def split: prod.splits sum.splits)

lemma randperm_dygraph:
  "in_dygraph_mode s \<Longrightarrow>
   randperm env n dtype name s =
     (case coerce_dtype env dtype of
        Inl e \<Rightarrow> (Inl e, s)
      | Inr d \<Rightarrow>
          core_ops env ''randperm''
            [(''n'', PInt n), (''seed'', PInt 0), (''dtype'', PDtype d)] s)"
  by (simp add: randperm_def split: sum.splits)

text \<open>
  Outside dygraph mode, a call that passes the checks is the chain of helper calls that
  builds the graph node.
\<close>

lemma randint_graph:
  "\<not> in_dygraph_mode s \<Longrightarrow> coerce_dtype env (default_dtype dtype ''int64'') = Inr d \<Longrightarrow>
   check_type shape ''shape'' [TyList, TyTuple, TyVariable] ''randint'' = Inr () \<Longrightarrow>
   check_dtype d ''dtype'' [''int32'', ''int64''] ''randint'' = Inr () \<Longrightarrow>
   fst (normalize_bounds low high) < snd (normalize_bounds low high) \<Longrightarrow>
   randint env low high shape dtype name s =
     (case get_shape_tensor_inputs env []
             [(''low'', PInt (fst (normalize_bounds low high))),
              (''high'', PInt (snd (normalize_bounds low high))),
              (''seed'', PInt 0), (''dtype'', PDtype d)] shape ''randint'' s of
        (Inl e, s1) \<Rightarrow> (Inl e, s1)
      | (Inr (inputs, attrs), s1) \<Rightarrow>
          (case create_variable_for_type_inference env
                  (randint_helper (fst (normalize_bounds low high))
                     (snd (normalize_bounds low high)) shape d name inputs attrs) d s1 of
             (Inl e, s2) \<Rightarrow> (Inl e, s2)
           | (Inr out, s2) \<Rightarrow>
               (case append_op env
                       (randint_helper (fst (normalize_bounds low high))
                          (snd (normalize_bounds low high)) shape d name inputs attrs)
                       \<lparr>op_type = ''randint'', op_inputs = inputs,
                        op_outputs = [(''Out'', out)], op_attrs = attrs\<rparr> s2 of
                  (Inl e, s3) \<Rightarrow> (Inl e, s3)
                | (Inr u, s3) \<Rightarrow> (Inr out, s3))))"
  by (simp add: randint_def Let_def split_beta split: sum.splits)

lemma randperm_graph:
  "\<not> in_dygraph_mode s \<Longrightarrow> coerce_dtype env dtype = Inr d \<Longrightarrow> 1 \<le> n \<Longrightarrow>
   check_dtype d ''dtype'' [''int64'', ''int32'', ''float32'', ''float64''] ''randperm''
     = Inr () \<Longrightarrow>
   randperm env n dtype name s =
     (case create_variable_for_type_inference env (randperm_helper n d name) d s of
        (Inl e, s1) \<Rightarrow> (Inl e, s1)
      | (Inr out, s1) \<Rightarrow>
          (case append_op env (randperm_helper n d name)
                  \<lparr>op_type = ''randperm'', op_inputs = [], op_outputs = [(''Out'', out)],
                   op_attrs = [(''n'', PInt n), (''dtype'', PDtype d), (''seed'', PInt 0)]\<rparr>
                  s1 of
             (Inl e, s2) \<Rightarrow> (Inl e, s2)
           | (Inr u, s2) \<Rightarrow> (Inr out, set_stop_gradient out True s2)))"
  by (simp add: randperm_def Let_def split: prod.splits sum.splits)

lemma graph_mode_empty_state: "\<not> in_dygraph_mode (empty_state False)"
  by (simp add: in_dygraph_mode_def empty_state_def)

lemma dygraph_mode_empty_state: "in_dygraph_mode (empty_state True)"
  by (simp add: in_dygraph_mode_def empty_state_def)

text \<open>The lists handed to \<open>check_dtype\<close>, read as sets of enumeration members.\<close>

lemma convert_dtype_int: "convert_dtype d \<in> set [''int32'', ''int64''] \<longleftrightarrow> d \<in> {INT32, INT64}"
  by (cases d) simp_all

lemma convert_dtype_perm:
  "convert_dtype d \<in> set [''int64'', ''int32'', ''float32'', ''float64'']
     \<longleftrightarrow> d \<in> {INT32, INT64, FP32, FP64}"
  by (cases d) simp_all

section \<open>Precondition errors\<close>

text \<open>
  C1, as the code has it. Outside dygraph mode, a call of \<open>randint\<close> whose bounds satisfy
  low \<ge> high after the normalization of \<open>high=None\<close> returns no handle: it raises and leaves
  the state as it was. The exception is the \<open>ValueError\<close> of lines 132 to 134 whenever the
  dtype descriptor coerces and the shape and dtype checks that run first pass.
\<close>

theorem randint_low_ge_high_graph_mode:
  assumes "\<not> in_dygraph_mode s"
    and "fst (normalize_bounds low high) \<ge> snd (normalize_bounds low high)"
  shows "(\<exists>e. randint env low high shape dtype name s = (Inl e, s)) \<and>
         (\<forall>d. coerce_dtype env (default_dtype dtype ''int64'') = Inr d \<longrightarrow>
              check_type shape ''shape'' [TyList, TyTuple, TyVariable] ''randint'' = Inr () \<longrightarrow>
              check_dtype d ''dtype'' [''int32'', ''int64''] ''randint'' = Inr () \<longrightarrow>
              randint env low high shape dtype name s =
                (Inl (randint_value_error (fst (normalize_bounds low high))
                        (snd (normalize_bounds low high))), s))"
  using assms by (auto simp add: randint_def Let_def split: prod.splits sum.splits)

theorem randint_low_ge_high_graph_mode_witness:
  "\<not> in_dygraph_mode (empty_state False) \<and>
   fst (normalize_bounds 5 (Some 3)) \<ge> snd (normalize_bounds 5 (Some 3)) \<and>
   randint sample_env 5 (Some 3) (ShapeList [DimInt 1]) DtNone None (empty_state False) =
     (Inl (randint_value_error 5 3), empty_state False)"
proof -
  have m: "\<not> in_dygraph_mode (empty_state False)"
    by (rule graph_mode_empty_state)
  have b: "fst (normalize_bounds 5 (Some 3)) \<ge> snd (normalize_bounds 5 (Some 3))"
    by (simp add: normalize_bounds_def)
  from randint_low_ge_high_graph_mode [OF m b, of sample_env "ShapeList [DimInt 1]" DtNone None]
  have "randint sample_env 5 (Some 3) (ShapeList [DimInt 1]) DtNone None (empty_state False) =
     (Inl (randint_value_error 5 3), empty_state False)"
    by (simp add: sample_env_def sample_convert_def coerce_dtype_def default_dtype_def
        check_type_def check_dtype_def normalize_bounds_def)
  with m b show ?thesis by simp
qed

text \<open>
  C1 as stated fails twice. In dygraph mode the call goes to the operator binding with
  low = 5 and high = 3, and the sample operator returns a handle. Outside dygraph mode a
  shape that is no list, tuple or Variable raises the \<open>TypeError\<close> of the shape check, which
  runs before the bounds are compared.
\<close>

theorem randint_low_ge_high_counterexample:
  "fst (randint sample_env 5 (Some 3) (ShapeList [DimInt 1]) DtNone None (empty_state True))
     = Inr 0 \<and>
   fst (randint sample_env 5 (Some 3) (ShapeOther ''3'') DtNone None (empty_state False))
     = Inl (TypeError ''shape'')"
  by (simp add: randint_def sample_defs)

text \<open>
  C2, as the code has it. Outside dygraph mode, a call of \<open>randperm\<close> with n < 1 returns no
  handle: it raises and leaves the state as it was. The exception is the \<open>ValueError\<close> of
  line 264 whenever the dtype descriptor coerces.
\<close>

theorem randperm_n_lt_1_graph_mode:
  assumes "\<not> in_dygraph_mode s" and "n < 1"
  shows "(\<exists>e. randperm env n dtype name s = (Inl e, s)) \<and>
         (\<forall>d. coerce_dtype env dtype = Inr d \<longrightarrow>
              randperm env n dtype name s = (Inl randperm_value_error, s))"
  using assms by (auto simp add: randperm_def split: sum.splits)

theorem randperm_n_lt_1_graph_mode_witness:
  "\<not> in_dygraph_mode (empty_state False) \<and> (0::int) < 1 \<and>
   randperm sample_env 0 (DtStr ''int64'') None (empty_state False) =
     (Inl randperm_value_error, empty_state False)"
proof -
  have m: "\<not> in_dygraph_mode (empty_state False)"
    by (rule graph_mode_empty_state)
  have b: "(0::int) < 1" by simp
  from randperm_n_lt_1_graph_mode [OF m b, of sample_env "DtStr ''int64''" None]
  have "randperm sample_env 0 (DtStr ''int64'') None (empty_state False) =
     (Inl randperm_value_error, empty_state False)"
    by (simp add: sample_env_def sample_convert_def coerce_dtype_def)
  with m b show ?thesis by simp
qed

text \<open>
  C2 as stated fails twice. In dygraph mode \<open>randperm(0)\<close> goes to the operator binding, and
  the sample operator returns a handle. Outside dygraph mode the coercion of the dtype
  descriptor runs before \<open>n\<close> is looked at, so a descriptor the sample coercion rejects
  raises that function's exception.
\<close>

theorem randperm_n_lt_1_counterexample:
  "fst (randperm sample_env 0 (DtStr ''int64'') None (empty_state True)) = Inr 0 \<and>
   fst (randperm sample_env 0 (DtStr ''complex64'') None (empty_state False))
     = Inl (OtherError ''unsupported dtype'')"
  by (simp add: randperm_def sample_defs)

text \<open>
  C5, as the code has it. Outside dygraph mode, when the dtype descriptor coerces to a member
  of the enumeration that is neither int32 nor int64, \<open>randint\<close> raises a \<open>TypeError\<close> (the
  one of the shape check when the shape is no list, tuple or Variable, the one of the dtype
  check otherwise) and leaves the state as it was. \<open>randperm\<close> does the same for a member
  other than int32, int64, float32 and float64 when n \<ge> 1.
\<close>

theorem unsupported_dtype_graph_mode:
  assumes "\<not> in_dygraph_mode s"
  shows "(coerce_dtype env (default_dtype dtype ''int64'') = Inr d \<longrightarrow> d \<notin> {INT32, INT64} \<longrightarrow>
            randint env low high shape dtype name s =
              (Inl (TypeError (if type_of_shape shape \<in> {TyList, TyTuple, TyVariable}
                               then ''dtype'' else ''shape'')), s)) \<and>
         (coerce_dtype env pdtype = Inr pd \<longrightarrow> pd \<notin> {INT32, INT64, FP32, FP64} \<longrightarrow> 1 \<le> n \<longrightarrow>
            randperm env n pdtype pname s = (Inl (TypeError ''dtype''), s))"
proof (intro conjI impI)
  assume c: "coerce_dtype env (default_dtype dtype ''int64'') = Inr d" and d: "d \<notin> {INT32, INT64}"
  from d have "convert_dtype d \<notin> set [''int32'', ''int64'']"
    unfolding convert_dtype_int by simp
  with c assms show "randint env low high shape dtype name s =
              (Inl (TypeError (if type_of_shape shape \<in> {TyList, TyTuple, TyVariable}
                               then ''dtype'' else ''shape'')), s)"
    by (simp add: randint_def Let_def check_type_def check_dtype_def split: prod.splits)
next
  assume c: "coerce_dtype env pdtype = Inr pd" and d: "pd \<notin> {INT32, INT64, FP32, FP64}"
    and n: "1 \<le> n"
  from d have "convert_dtype pd \<notin> set [''int64'', ''int32'', ''float32'', ''float64'']"
    unfolding convert_dtype_perm by simp
  with c n assms show "randperm env n pdtype pname s = (Inl (TypeError ''dtype''), s)"
    by (simp add: randperm_def check_dtype_def)
qed


theorem unsupported_dtype_graph_mode_witness:
  "\<not> in_dygraph_mode (empty_state False) \<and>
   randint sample_env 0 (Some 3) (ShapeList [DimInt 1]) (DtStr ''float32'') None
     (empty_state False) = (Inl (TypeError ''dtype''), empty_state False) \<and>
   randperm sample_env 3 (DtVarType BOOL) None (empty_state False)
     = (Inl (TypeError ''dtype''), empty_state False)"
proof -
  have m: "\<not> in_dygraph_mode (empty_state False)"
    by (rule graph_mode_empty_state)
  from unsupported_dtype_graph_mode [OF m, of sample_env "DtStr ''float32''" FP32 0 "Some 3"
      "ShapeList [DimInt 1]" None "DtVarType BOOL" BOOL 3 None]
  have "randint sample_env 0 (Some 3) (ShapeList [DimInt 1]) (DtStr ''float32'') None
          (empty_state False) = (Inl (TypeError ''dtype''), empty_state False) \<and>
        randperm sample_env 3 (DtVarType BOOL) None (empty_state False)
          = (Inl (TypeError ''dtype''), empty_state False)"
    by (simp add: sample_env_def sample_convert_def coerce_dtype_def default_dtype_def)
  with m show ?thesis by simp
qed

text \<open>
  C5 as stated fails: in dygraph mode float32 reaches the \<open>randint\<close> operator and bool the
  \<open>randperm\<close> operator, and the sample operator returns a handle; outside dygraph mode
  \<open>randperm(0, dtype=bool)\<close> raises the \<open>ValueError\<close> of line 264, which is checked first.
\<close>

theorem unsupported_dtype_counterexample:
  "fst (randint sample_env 0 (Some 3) (ShapeList [DimInt 1]) (DtVarType FP32) None
          (empty_state True)) = Inr 0 \<and>
   fst (randperm sample_env 3 (DtVarType BOOL) None (empty_state True)) = Inr 0 \<and>
   fst (randperm sample_env 0 (DtVarType BOOL) None (empty_state False))
     = Inl randperm_value_error"
  by (simp add: randint_def randperm_def sample_defs)

text \<open>
  C6, as the code has it. Outside dygraph mode, when the dtype descriptor coerces, a call
  of \<open>randint\<close> whose shape is no list, tuple or Variable raises the \<open>TypeError\<close> of the
  shape check and leaves the state as it was.
\<close>

theorem unaccepted_shape_graph_mode:
  assumes "\<not> in_dygraph_mode s"
    and "coerce_dtype env (default_dtype dtype ''int64'') = Inr d"
    and "type_of_shape shape \<notin> {TyList, TyTuple, TyVariable}"
  shows "randint env low high shape dtype name s = (Inl (TypeError ''shape''), s)"
  using assms by (simp add: randint_def Let_def check_type_def split: prod.splits)


theorem unaccepted_shape_graph_mode_witness:
  "\<not> in_dygraph_mode (empty_state False) \<and>
   coerce_dtype sample_env (default_dtype DtNone ''int64'') = Inr INT64 \<and>
   type_of_shape (ShapeOther ''3'') \<notin> {TyList, TyTuple, TyVariable} \<and>
   randint sample_env 0 (Some 3) (ShapeOther ''3'') DtNone None (empty_state False)
     = (Inl (TypeError ''shape''), empty_state False)"
proof -
  have m: "\<not> in_dygraph_mode (empty_state False)"
    by (rule graph_mode_empty_state)
  have c: "coerce_dtype sample_env (default_dtype DtNone ''int64'') = Inr INT64"
    by (simp add: sample_env_def sample_convert_def coerce_dtype_def default_dtype_def)
  have t: "type_of_shape (ShapeOther ''3'') \<notin> {TyList, TyTuple, TyVariable}"
    by simp
  from unaccepted_shape_graph_mode [OF m c t, of 0 "Some 3" None] m c t
  show ?thesis by simp
qed

text \<open>
  C6 as stated fails twice. In dygraph mode the shape goes to \<open>_convert_shape_to_list\<close> and
  on to the operator, and the sample runtime returns a handle. Outside dygraph mode the
  coercion of the dtype descriptor runs before the shape check, so a descriptor the sample
  coercion rejects raises that function's exception.
\<close>

theorem unaccepted_shape_counterexample:
  "fst (randint sample_env 0 (Some 3) (ShapeOther ''3'') DtNone None (empty_state True))
     = Inr 0 \<and>
   fst (randint sample_env 0 (Some 3) (ShapeOther ''3'') (DtStr ''complex64'') None
          (empty_state False)) = Inl (OtherError ''unsupported dtype'')"
  by (simp add: randint_def sample_defs)

section \<open>Dispatch in dygraph mode\<close>




section \<open>Normalization of the bounds\<close>

text \<open>
  C9. \<open>randint(low, high=None, ...)\<close> is \<open>randint(0, low, ...)\<close>, for every runtime, state
  and other arguments. In particular \<open>randint(0, high=None, ...)\<close> raises the \<open>ValueError\<close>
  of lines 132 to 134 outside dygraph mode, when the call passes the coercion and the two
  checks that run before the comparison.
\<close>

theorem randint_high_none_normalization:
  "randint env low None shape dtype name s = randint env 0 (Some low) shape dtype name s \<and>
   (\<not> in_dygraph_mode s \<longrightarrow>
    coerce_dtype env (default_dtype dtype ''int64'') = Inr d \<longrightarrow>
    check_type shape ''shape'' [TyList, TyTuple, TyVariable] ''randint'' = Inr () \<longrightarrow>
    check_dtype d ''dtype'' [''int32'', ''int64''] ''randint'' = Inr () \<longrightarrow>
    randint env 0 None shape dtype name s = (Inl (randint_value_error 0 0), s))"
  by (simp add: randint_def Let_def normalize_bounds_def)


theorem randint_high_none_normalization_witness:
  "randint sample_env 7 None (ShapeList [DimInt 1]) DtNone None (empty_state False)
     = randint sample_env 0 (Some 7) (ShapeList [DimInt 1]) DtNone None (empty_state False) \<and>
   \<not> in_dygraph_mode (empty_state False) \<and>
   coerce_dtype sample_env (default_dtype DtNone ''int64'') = Inr INT64 \<and>
   check_type (ShapeList [DimInt 1]) ''shape'' [TyList, TyTuple, TyVariable] ''randint''
     = Inr () \<and>
   check_dtype INT64 ''dtype'' [''int32'', ''int64''] ''randint'' = Inr () \<and>
   randint sample_env 0 None (ShapeList [DimInt 1]) DtNone None (empty_state False)
     = (Inl (randint_value_error 0 0), empty_state False)"
proof -
  have m: "\<not> in_dygraph_mode (empty_state False)"
    by (rule graph_mode_empty_state)
  have c: "coerce_dtype sample_env (default_dtype DtNone ''int64'') = Inr INT64"
    by (simp add: sample_env_def sample_convert_def coerce_dtype_def default_dtype_def)
  have t: "check_type (ShapeList [DimInt 1]) ''shape'' [TyList, TyTuple, TyVariable] ''randint''
     = Inr ()"
    by (simp add: check_type_def)
  have k: "check_dtype INT64 ''dtype'' [''int32'', ''int64''] ''randint'' = Inr ()"
    by (simp add: check_dtype_def)
  note inst = randint_high_none_normalization [of sample_env _ "ShapeList [DimInt 1]" DtNone None
      "empty_state False" INT64]
  from inst [of 7] have e: "randint sample_env 7 None (ShapeList [DimInt 1]) DtNone None
      (empty_state False)
     = randint sample_env 0 (Some 7) (ShapeList [DimInt 1]) DtNone None (empty_state False)"
    by (rule conjunct1)
  from inst [of 0] m c t k have "randint sample_env 0 None (ShapeList [DimInt 1]) DtNone None
      (empty_state False) = (Inl (randint_value_error 0 0), empty_state False)"
    by blast
  with e m c t k show ?thesis by simp
qed

section \<open>Defaults\<close>

text \<open>
  C4. A call of \<open>rand\<close> with \<open>dtype=None\<close> is the call with \<open>dtype='float32'\<close>: the tensor is
  requested from \<open>uniform_random\<close> with the descriptor \<open>'float32'\<close>, for every shape, name,
  state and runtime.
\<close>

theorem rand_default_dtype_float32:
  "rand env shape DtNone name s = rand env shape (DtStr ''float32'') name s \<and>
   rand env shape DtNone name s =
     (case uniform_random env shape (DtStr ''float32'') 0 1 name s of
        (Inl e, s1) \<Rightarrow> (Inl e, s1)
      | (Inr out, s1) \<Rightarrow> (Inr out, set_stop_gradient out True s1))"
  by (simp add: rand_def default_dtype_def)

section \<open>The call-through to the operator\<close>



section \<open>The steps of a valid call\<close>

text \<open>
  C7, as the code has it. A valid call of \<open>randint\<close> or \<open>randperm\<close> resolves the defaults,
  coerces the dtype descriptor, branches on the execution mode to the operator binding or to
  the helper that creates the output variable and registers the node, and returns the
  handle. \<open>rand\<close> and \<open>randn\<close> resolve the dtype default, hand the descriptor as it is to
  \<open>uniform_random\<close> and \<open>gaussian_random\<close>, set \<open>stop_gradient\<close> on the handle they get
  and return it: they depend on the runtime through that one layer function only, and
  neither coerce the descriptor nor branch on the execution mode.
\<close>

theorem valid_call_steps:
  "(in_dygraph_mode sd \<longrightarrow> coerce_dtype env (default_dtype dtype ''int64'') = Inr d \<longrightarrow>
    convert_shape_to_list env shape sd = (Inr l, s1) \<longrightarrow>
    core_ops env ''randint''
      [(''shape'', PIntList l), (''low'', PInt (fst (normalize_bounds low high))),
       (''high'', PInt (snd (normalize_bounds low high))), (''seed'', PInt 0),
       (''dtype'', PDtype d)] s1 = (Inr out, s2) \<longrightarrow>
      randint env low high shape dtype name sd = (Inr out, s2)) \<and>
   (\<not> in_dygraph_mode sg \<longrightarrow> coerce_dtype env (default_dtype dtype ''int64'') = Inr d \<longrightarrow>
    check_type shape ''shape'' [TyList, TyTuple, TyVariable] ''randint'' = Inr () \<longrightarrow>
    check_dtype d ''dtype'' [''int32'', ''int64''] ''randint'' = Inr () \<longrightarrow>
    fst (normalize_bounds low high) < snd (normalize_bounds low high) \<longrightarrow>
    get_shape_tensor_inputs env []
      [(''low'', PInt (fst (normalize_bounds low high))),
       (''high'', PInt (snd (normalize_bounds low high))),
       (''seed'', PInt 0), (''dtype'', PDtype d)] shape ''randint'' sg
      = (Inr (inputs, attrs), s3) \<longrightarrow>
    create_variable_for_type_inference env
      (randint_helper (fst (normalize_bounds low high)) (snd (normalize_bounds low high))
         shape d name inputs attrs) d s3 = (Inr gout, s4) \<longrightarrow>
    append_op env
      (randint_helper (fst (normalize_bounds low high)) (snd (normalize_bounds low high))
         shape d name inputs attrs)
      \<lparr>op_type = ''randint'', op_inputs = inputs, op_outputs = [(''Out'', gout)],
       op_attrs = attrs\<rparr> s4 = (Inr (), s5) \<longrightarrow>
      randint env low high shape dtype name sg = (Inr gout, s5)) \<and>
   (in_dygraph_mode sd \<longrightarrow> coerce_dtype env pdtype = Inr pd \<longrightarrow>
    core_ops env ''randperm''
      [(''n'', PInt n), (''seed'', PInt 0), (''dtype'', PDtype pd)] sd = (Inr pout, s6) \<longrightarrow>
      randperm env n pdtype pname sd = (Inr pout, s6)) \<and>
   (\<not> in_dygraph_mode sg \<longrightarrow> coerce_dtype env pdtype = Inr pd \<longrightarrow> 1 \<le> n \<longrightarrow>
    check_dtype pd ''dtype'' [''int64'', ''int32'', ''float32'', ''float64''] ''randperm''
      = Inr () \<longrightarrow>
    create_variable_for_type_inference env (randperm_helper n pd pname) pd sg
      = (Inr qout, s7) \<longrightarrow>
    append_op env (randperm_helper n pd pname)
      \<lparr>op_type = ''randperm'', op_inputs = [], op_outputs = [(''Out'', qout)],
       op_attrs = [(''n'', PInt n), (''dtype'', PDtype pd), (''seed'', PInt 0)]\<rparr> s7
      = (Inr (), s8) \<longrightarrow>
      randperm env n pdtype pname sg = (Inr qout, set_stop_gradient qout True s8)) \<and>
   rand env shape rdtype rname s =
     (case uniform_random env shape (default_dtype rdtype ''float32'') 0 1 rname s of
        (Inl e, s9) \<Rightarrow> (Inl e, s9)
      | (Inr rout, s9) \<Rightarrow> (Inr rout, set_stop_gradient rout True s9)) \<and>
   randn env shape ndtype nname s =
     (case gaussian_random env shape 0 1 0 (default_dtype ndtype ''float32'') nname s of
        (Inl e, s9) \<Rightarrow> (Inl e, s9)
      | (Inr nout, s9) \<Rightarrow> (Inr nout, set_stop_gradient nout True s9)) \<and>
   (uniform_random env2 = uniform_random env \<longrightarrow>
      rand env2 shape rdtype rname s = rand env shape rdtype rname s) \<and>
   (gaussian_random env2 = gaussian_random env \<longrightarrow>
      randn env2 shape ndtype nname s = randn env shape ndtype nname s)"
  by (simp add: randint_dygraph randint_graph randperm_dygraph randperm_graph randn_def
      rand_def)

theorem valid_call_steps_witness:
  "fst (randint sample_env 0 (Some 3) (ShapeList [DimInt 2]) DtNone None (empty_state True))
     = Inr 0 \<and>
   fst (randint sample_env 0 (Some 3) (ShapeList [DimInt 2]) DtNone None (empty_state False))
     = Inr 0 \<and>
   fst (randperm sample_env 3 (DtStr ''int64'') None (empty_state True)) = Inr 0 \<and>
   fst (randperm sample_env 3 (DtStr ''int64'') None (empty_state False)) = Inr 0 \<and>
   fst (rand sample_env (ShapeList [DimInt 2]) DtNone None (empty_state False)) = Inr 0 \<and>
   fst (randn sample_env (ShapeList [DimInt 2]) DtNone None (empty_state False)) = Inr 0 \<and>
   rand no_dispatch_env (ShapeList [DimInt 2]) DtNone None (empty_state False)
     = rand sample_env (ShapeList [DimInt 2]) DtNone None (empty_state False) \<and>
   randn no_dispatch_env (ShapeList [DimInt 2]) DtNone None (empty_state False)
     = randn sample_env (ShapeList [DimInt 2]) DtNone None (empty_state False)"
proof -
  let ?sh = "ShapeList [DimInt 2]"
  let ?attrs = "[(''low'', PInt 0), (''high'', PInt 3), (''seed'', PInt 0),
                 (''dtype'', PDtype INT64)] @ [(''shape'', PShape ?sh)]"
  let ?e1 = "snd (alloc (Some INT64) (empty_state True))"
  let ?s3 = "snd (alloc (Some INT64) (empty_state False))"
  let ?pnode = "\<lparr>op_type = ''randperm'', op_inputs = [], op_outputs = [(''Out'', 0)],
       op_attrs = [(''n'', PInt 3), (''dtype'', PDtype INT64), (''seed'', PInt 0)]\<rparr>"
  let ?inode = "\<lparr>op_type = ''randint'', op_inputs = [], op_outputs = [(''Out'', 0)],
       op_attrs = ?attrs\<rparr>"
  let ?s5 = "?s3\<lparr>graph_ops := graph_ops ?s3 @ [?inode]\<rparr>"
  let ?s8 = "?s3\<lparr>graph_ops := graph_ops ?s3 @ [?pnode]\<rparr>"
  note inst = valid_call_steps [where env = sample_env and ?env2.0 = no_dispatch_env
      and sd = "empty_state True" and sg = "empty_state False" and s = "empty_state False"
      and shape = ?sh and dtype = DtNone and d = INT64 and low = 0 and high = "Some 3"
      and name = None and l = "[2]" and ?s1.0 = "empty_state True" and out = 0
      and ?s2.0 = ?e1 and inputs = "[]" and attrs = ?attrs and ?s3.0 = "empty_state False"
      and gout = 0 and ?s4.0 = ?s3 and ?s5.0 = ?s5
      and pdtype = "DtStr ''int64''" and pd = INT64 and n = 3 and pname = None and pout = 0
      and ?s6.0 = ?e1 and qout = 0 and ?s7.0 = ?s3 and ?s8.0 = ?s8
      and rdtype = DtNone and rname = None and ndtype = DtNone and nname = None]
  have md: "in_dygraph_mode (empty_state True)" by (rule dygraph_mode_empty_state)
  have mg: "\<not> in_dygraph_mode (empty_state False)" by (rule graph_mode_empty_state)
  have c: "coerce_dtype sample_env (default_dtype DtNone ''int64'') = Inr INT64"
    by (simp add: sample_env_def sample_convert_def coerce_dtype_def default_dtype_def)
  have pc: "coerce_dtype sample_env (DtStr ''int64'') = Inr INT64"
    by (simp add: sample_env_def sample_convert_def coerce_dtype_def)
  have l: "convert_shape_to_list sample_env ?sh (empty_state True) = (Inr [2], empty_state True)"
    by (simp add: sample_env_def sample_shape_to_list_def)
  have t: "check_type ?sh ''shape'' [TyList, TyTuple, TyVariable] ''randint'' = Inr ()"
    by (simp add: check_type_def)
  have k: "check_dtype INT64 ''dtype'' [''int32'', ''int64''] ''randint'' = Inr ()"
    by (simp add: check_dtype_def)
  have pk: "check_dtype INT64 ''dtype'' [''int64'', ''int32'', ''float32'', ''float64'']
      ''randperm'' = Inr ()"
    by (simp add: check_dtype_def)
  have nb: "normalize_bounds 0 (Some 3) = (0, 3)"
    by (simp add: normalize_bounds_def)
  have g: "get_shape_tensor_inputs sample_env []
      [(''low'', PInt 0), (''high'', PInt 3), (''seed'', PInt 0), (''dtype'', PDtype INT64)]
      ?sh ''randint'' (empty_state False) = (Inr ([], ?attrs), empty_state False)"
    by (simp add: sample_env_def sample_shape_inputs_def)
  have v: "create_variable_for_type_inference sample_env h INT64 (empty_state False)
      = (Inr 0, ?s3)" for h
    by (simp add: sample_env_def alloc_def empty_state_def)
  have a: "append_op sample_env h node ?s3 = (Inr (), ?s3\<lparr>graph_ops := graph_ops ?s3 @ [node]\<rparr>)"
    for h node
    by (simp add: sample_env_def sample_append_op_def)
  have o: "core_ops sample_env op [(''shape'', PIntList [2]), (''low'', PInt 0),
      (''high'', PInt 3), (''seed'', PInt 0), (''dtype'', PDtype INT64)] (empty_state True)
      = (Inr 0, ?e1)" for op
    by (simp add: sample_env_def sample_core_ops_def alloc_def empty_state_def)
  have po: "core_ops sample_env op [(''n'', PInt 3), (''seed'', PInt 0),
      (''dtype'', PDtype INT64)] (empty_state True) = (Inr 0, ?e1)" for op
    by (simp add: sample_env_def sample_core_ops_def alloc_def empty_state_def)
  have ur: "uniform_random no_dispatch_env = uniform_random sample_env"
    by (simp add: no_dispatch_env_def)
  have gr: "gaussian_random no_dispatch_env = gaussian_random sample_env"
    by (simp add: no_dispatch_env_def)
  from inst md c l nb o have r1: "randint sample_env 0 (Some 3) ?sh DtNone None
      (empty_state True) = (Inr 0, ?e1)"
    by simp
  from inst mg c t k nb g v a have r2: "randint sample_env 0 (Some 3) ?sh DtNone None
      (empty_state False) = (Inr 0, ?s5)"
    by simp
  from inst md pc po have r3: "randperm sample_env 3 (DtStr ''int64'') None (empty_state True)
      = (Inr 0, ?e1)"
    by simp
  from inst mg pc pk v a have r4: "randperm sample_env 3 (DtStr ''int64'') None
      (empty_state False) = (Inr 0, set_stop_gradient 0 True ?s8)"
    by simp
  from inst have r5: "rand sample_env ?sh DtNone None (empty_state False) =
     (case uniform_random sample_env ?sh (default_dtype DtNone ''float32'') 0 1 None
        (empty_state False) of
        (Inl e, s9) \<Rightarrow> (Inl e, s9)
      | (Inr rout, s9) \<Rightarrow> (Inr rout, set_stop_gradient rout True s9))"
    by blast
  from inst have r6: "randn sample_env ?sh DtNone None (empty_state False) =
     (case gaussian_random sample_env ?sh 0 1 0 (default_dtype DtNone ''float32'') None
        (empty_state False) of
        (Inl e, s9) \<Rightarrow> (Inl e, s9)
      | (Inr nout, s9) \<Rightarrow> (Inr nout, set_stop_gradient nout True s9))"
    by blast
  from inst ur have r7: "rand no_dispatch_env ?sh DtNone None (empty_state False)
     = rand sample_env ?sh DtNone None (empty_state False)"
    by blast
  from inst gr have r8: "randn no_dispatch_env ?sh DtNone None (empty_state False)
     = randn sample_env ?sh DtNone None (empty_state False)"
    by blast
  show ?thesis
    unfolding r7 r8 unfolding r1 r2 r3 r4 r5 r6
    by (simp add: sample_env_def alloc_def empty_state_def)
qed

text \<open>
  C7 as stated fails for \<open>rand\<close> and \<open>randn\<close>: in a runtime whose dtype coercion, operator
  binding and helper always raise, both return a handle in either mode, while \<open>randint\<close>
  raises the exception of the coercion.
\<close>

theorem valid_call_steps_counterexample:
  "coerce_dtype no_dispatch_env (default_dtype DtNone ''float32'')
     = Inl (OtherError ''no coercion'') \<and>
   fst (rand no_dispatch_env (ShapeList [DimInt 2]) DtNone None (empty_state True)) = Inr 0 \<and>
   fst (rand no_dispatch_env (ShapeList [DimInt 2]) DtNone None (empty_state False)) = Inr 0 \<and>
   fst (randn no_dispatch_env (ShapeList [DimInt 2]) DtNone None (empty_state True)) = Inr 0 \<and>
   fst (randn no_dispatch_env (ShapeList [DimInt 2]) DtNone None (empty_state False)) = Inr 0 \<and>
   fst (randint no_dispatch_env 0 (Some 3) (ShapeList [DimInt 2]) DtNone None
          (empty_state True)) = Inl (OtherError ''no coercion'')"
  by (simp add: rand_def randn_def randint_def no_dispatch_env_def sample_defs)

section \<open>The writes to the framework state\<close>

text \<open>
  C10, as the code has it. \<open>rand\<close> and \<open>randn\<close> return the handle the layer function
  returned and leave the state that function left, with \<open>stop_gradient\<close> of that handle set
  and nothing else changed. Outside dygraph mode \<open>randperm\<close> returns the handle of the
  variable the helper created and leaves the state \<open>append_op\<close> left, with \<open>stop_gradient\<close>
  of that handle set and nothing else changed; in dygraph mode it returns what the operator
  binding returns, handle and state. \<open>randint\<close> writes nothing itself: it returns the handle
  and the state its collaborators left, in both modes.
\<close>

theorem stop_gradient_frame:
  "(uniform_random env shape (default_dtype rdtype ''float32'') 0 1 rname s = (Inr rout, s1) \<longrightarrow>
      rand env shape rdtype rname s =
        (Inr rout, s1\<lparr>vars := (vars s1)(rout := (vars s1 rout)\<lparr>stop_gradient := True\<rparr>)\<rparr>)) \<and>
   (gaussian_random env shape 0 1 0 (default_dtype ndtype ''float32'') nname s
      = (Inr nout, s2) \<longrightarrow>
      randn env shape ndtype nname s =
        (Inr nout, s2\<lparr>vars := (vars s2)(nout := (vars s2 nout)\<lparr>stop_gradient := True\<rparr>)\<rparr>)) \<and>
   (\<not> in_dygraph_mode sg \<longrightarrow> coerce_dtype env pdtype = Inr pd \<longrightarrow> 1 \<le> n \<longrightarrow>
    check_dtype pd ''dtype'' [''int64'', ''int32'', ''float32'', ''float64''] ''randperm''
      = Inr () \<longrightarrow>
    create_variable_for_type_inference env (randperm_helper n pd pname) pd sg
      = (Inr pout, s3) \<longrightarrow>
    append_op env (randperm_helper n pd pname)
      \<lparr>op_type = ''randperm'', op_inputs = [], op_outputs = [(''Out'', pout)],
       op_attrs = [(''n'', PInt n), (''dtype'', PDtype pd), (''seed'', PInt 0)]\<rparr> s3
      = (Inr (), s4) \<longrightarrow>
      randperm env n pdtype pname sg =
        (Inr pout, s4\<lparr>vars := (vars s4)(pout := (vars s4 pout)\<lparr>stop_gradient := True\<rparr>)\<rparr>)) \<and>
   (in_dygraph_mode sd \<longrightarrow> coerce_dtype env pdtype = Inr pd \<longrightarrow>
      randperm env n pdtype pname sd =
        core_ops env ''randperm''
          [(''n'', PInt n), (''seed'', PInt 0), (''dtype'', PDtype pd)] sd) \<and>
   (\<not> in_dygraph_mode sg \<longrightarrow> coerce_dtype env (default_dtype dtype ''int64'') = Inr d \<longrightarrow>
    check_type shape ''shape'' [TyList, TyTuple, TyVariable] ''randint'' = Inr () \<longrightarrow>
    check_dtype d ''dtype'' [''int32'', ''int64''] ''randint'' = Inr () \<longrightarrow>
    fst (normalize_bounds low high) < snd (normalize_bounds low high) \<longrightarrow>
    get_shape_tensor_inputs env []
      [(''low'', PInt (fst (normalize_bounds low high))),
       (''high'', PInt (snd (normalize_bounds low high))),
       (''seed'', PInt 0), (''dtype'', PDtype d)] shape ''randint'' sg
      = (Inr (inputs, attrs), s5) \<longrightarrow>
    create_variable_for_type_inference env
      (randint_helper (fst (normalize_bounds low high)) (snd (normalize_bounds low high))
         shape d name inputs attrs) d s5 = (Inr out, s6) \<longrightarrow>
    append_op env
      (randint_helper (fst (normalize_bounds low high)) (snd (normalize_bounds low high))
         shape d name inputs attrs)
      \<lparr>op_type = ''randint'', op_inputs = inputs, op_outputs = [(''Out'', out)],
       op_attrs = attrs\<rparr> s6 = (Inr (), s7) \<longrightarrow>
      randint env low high shape dtype name sg = (Inr out, s7)) \<and>
   (in_dygraph_mode sd \<longrightarrow> coerce_dtype env (default_dtype dtype ''int64'') = Inr d \<longrightarrow>
    convert_shape_to_list env shape sd = (Inr l, s8) \<longrightarrow>
      randint env low high shape dtype name sd =
        core_ops env ''randint''
          [(''shape'', PIntList l), (''low'', PInt (fst (normalize_bounds low high))),
           (''high'', PInt (snd (normalize_bounds low high))), (''seed'', PInt 0),
           (''dtype'', PDtype d)] s8)"
  by (simp add: randint_dygraph randint_graph randperm_dygraph randperm_graph randn_def
      rand_def set_stop_gradient_def)

theorem stop_gradient_frame_witness:
  "rand sample_env (ShapeList [DimInt 2]) DtNone None (empty_state False) =
     (Inr 0, (empty_state False)\<lparr>vars := (vars (empty_state False))
        (0 := \<lparr>var_dtype = None, stop_gradient = True\<rparr>), next_var := 1\<rparr>) \<and>
   randn sample_env (ShapeList [DimInt 2]) DtNone None (empty_state False) =
     (Inr 0, (empty_state False)\<lparr>vars := (vars (empty_state False))
        (0 := \<lparr>var_dtype = None, stop_gradient = True\<rparr>), next_var := 1\<rparr>) \<and>
   randperm sample_env 3 (DtStr ''int64'') None (empty_state False) =
     (Inr 0, (empty_state False)\<lparr>vars := (vars (empty_state False))
        (0 := \<lparr>var_dtype = Some INT64, stop_gradient = True\<rparr>), next_var := 1,
        graph_ops := [\<lparr>op_type = ''randperm'', op_inputs = [], op_outputs = [(''Out'', 0)],
          op_attrs = [(''n'', PInt 3), (''dtype'', PDtype INT64), (''seed'', PInt 0)]\<rparr>]\<rparr>) \<and>
   randperm sample_env 3 (DtStr ''int64'') None (empty_state True) =
     sample_core_ops ''randperm''
       [(''n'', PInt 3), (''seed'', PInt 0), (''dtype'', PDtype INT64)] (empty_state True) \<and>
   randint sample_env 0 (Some 3) (ShapeList [DimInt 2]) DtNone None (empty_state False) =
     (Inr 0, (empty_state False)\<lparr>vars := (vars (empty_state False))
        (0 := \<lparr>var_dtype = Some INT64, stop_gradient = False\<rparr>), next_var := 1,
        graph_ops := [\<lparr>op_type = ''randint'', op_inputs = [], op_outputs = [(''Out'', 0)],
          op_attrs = [(''low'', PInt 0), (''high'', PInt 3), (''seed'', PInt 0),
            (''dtype'', PDtype INT64), (''shape'', PShape (ShapeList [DimInt 2]))]\<rparr>]\<rparr>) \<and>
   randint sample_env 0 (Some 3) (ShapeList [DimInt 2]) DtNone None (empty_state True) =
     sample_core_ops ''randint''
       [(''shape'', PIntList [2]), (''low'', PInt 0), (''high'', PInt 3), (''seed'', PInt 0),
        (''dtype'', PDtype INT64)] (empty_state True)"
proof -
  let ?sh = "ShapeList [DimInt 2]"
  let ?attrs = "[(''low'', PInt 0), (''high'', PInt 3), (''seed'', PInt 0),
                 (''dtype'', PDtype INT64)] @ [(''shape'', PShape ?sh)]"
  let ?s1 = "snd (alloc None (empty_state False))"
  let ?s3 = "snd (alloc (Some INT64) (empty_state False))"
  let ?pnode = "\<lparr>op_type = ''randperm'', op_inputs = [], op_outputs = [(''Out'', 0)],
       op_attrs = [(''n'', PInt 3), (''dtype'', PDtype INT64), (''seed'', PInt 0)]\<rparr>"
  let ?inode = "\<lparr>op_type = ''randint'', op_inputs = [], op_outputs = [(''Out'', 0)],
       op_attrs = ?attrs\<rparr>"
  let ?s4 = "?s3\<lparr>graph_ops := graph_ops ?s3 @ [?pnode]\<rparr>"
  let ?s7 = "?s3\<lparr>graph_ops := graph_ops ?s3 @ [?inode]\<rparr>"
  note inst = stop_gradient_frame [where env = sample_env
      and sd = "empty_state True" and sg = "empty_state False" and s = "empty_state False"
      and shape = ?sh and rdtype = DtNone and rname = None and rout = 0 and ?s1.0 = ?s1
      and ndtype = DtNone and nname = None and nout = 0 and ?s2.0 = ?s1
      and pdtype = "DtStr ''int64''" and pd = INT64 and n = 3 and pname = None and pout = 0
      and ?s3.0 = ?s3 and ?s4.0 = ?s4
      and dtype = DtNone and d = INT64 and low = 0 and high = "Some 3" and name = None
      and inputs = "[]" and attrs = ?attrs and ?s5.0 = "empty_state False" and out = 0
      and ?s6.0 = ?s3 and ?s7.0 = ?s7 and l = "[2]" and ?s8.0 = "empty_state True"]
  have md: "in_dygraph_mode (empty_state True)" by (rule dygraph_mode_empty_state)
  have mg: "\<not> in_dygraph_mode (empty_state False)" by (rule graph_mode_empty_state)
  have c: "coerce_dtype sample_env (default_dtype DtNone ''int64'') = Inr INT64"
    by (simp add: sample_env_def sample_convert_def coerce_dtype_def default_dtype_def)
  have pc: "coerce_dtype sample_env (DtStr ''int64'') = Inr INT64"
    by (simp add: sample_env_def sample_convert_def coerce_dtype_def)
  have l: "convert_shape_to_list sample_env ?sh (empty_state True) = (Inr [2], empty_state True)"
    by (simp add: sample_env_def sample_shape_to_list_def)
  have t: "check_type ?sh ''shape'' [TyList, TyTuple, TyVariable] ''randint'' = Inr ()"
    by (simp add: check_type_def)
  have k: "check_dtype INT64 ''dtype'' [''int32'', ''int64''] ''randint'' = Inr ()"
    by (simp add: check_dtype_def)
  have pk: "check_dtype INT64 ''dtype'' [''int64'', ''int32'', ''float32'', ''float64'']
      ''randperm'' = Inr ()"
    by (simp add: check_dtype_def)
  have nb: "normalize_bounds 0 (Some 3) = (0, 3)"
    by (simp add: normalize_bounds_def)
  have g: "get_shape_tensor_inputs sample_env []
      [(''low'', PInt 0), (''high'', PInt 3), (''seed'', PInt 0), (''dtype'', PDtype INT64)]
      ?sh ''randint'' (empty_state False) = (Inr ([], ?attrs), empty_state False)"
    by (simp add: sample_env_def sample_shape_inputs_def)
  have v: "create_variable_for_type_inference sample_env h INT64 (empty_state False)
      = (Inr 0, ?s3)" for h
    by (simp add: sample_env_def alloc_def empty_state_def)
  have u: "uniform_random sample_env ?sh (default_dtype DtNone ''float32'') 0 1 None
      (empty_state False) = (Inr 0, ?s1)"
    by (simp add: sample_env_def alloc_def empty_state_def)
  have ga: "gaussian_random sample_env ?sh 0 1 0 (default_dtype DtNone ''float32'') None
      (empty_state False) = (Inr 0, ?s1)"
    by (simp add: sample_env_def alloc_def empty_state_def)
  have a: "append_op sample_env h node ?s3 = (Inr (), ?s3\<lparr>graph_ops := graph_ops ?s3 @ [node]\<rparr>)"
    for h node
    by (simp add: sample_env_def sample_append_op_def)
  from inst u have r1: "rand sample_env ?sh DtNone None (empty_state False) =
      (Inr 0, ?s1\<lparr>vars := (vars ?s1)(0 := (vars ?s1 0)\<lparr>stop_gradient := True\<rparr>)\<rparr>)"
    by blast
  from inst ga have r2: "randn sample_env ?sh DtNone None (empty_state False) =
      (Inr 0, ?s1\<lparr>vars := (vars ?s1)(0 := (vars ?s1 0)\<lparr>stop_gradient := True\<rparr>)\<rparr>)"
    by blast
  from inst mg pc pk v a have r3: "randperm sample_env 3 (DtStr ''int64'') None
      (empty_state False) =
      (Inr 0, ?s4\<lparr>vars := (vars ?s4)(0 := (vars ?s4 0)\<lparr>stop_gradient := True\<rparr>)\<rparr>)"
    by simp
  from inst md pc have r4: "randperm sample_env 3 (DtStr ''int64'') None (empty_state True) =
     sample_core_ops ''randperm''
       [(''n'', PInt 3), (''seed'', PInt 0), (''dtype'', PDtype INT64)] (empty_state True)"
    by (simp add: sample_env_def)
  from inst mg c t k nb g v a have r5: "randint sample_env 0 (Some 3) ?sh DtNone None
      (empty_state False) = (Inr 0, ?s7)"
    by simp
  from inst md c l nb have r6: "randint sample_env 0 (Some 3) ?sh DtNone None (empty_state True)
      = sample_core_ops ''randint''
       [(''shape'', PIntList [2]), (''low'', PInt 0), (''high'', PInt 3), (''seed'', PInt 0),
        (''dtype'', PDtype INT64)] (empty_state True)"
    by (simp add: sample_env_def)
  show ?thesis
    unfolding r1 r2 r3 r4 r5 r6
    by (simp add: alloc_def empty_state_def)
qed

text \<open>
  C10 as stated fails for \<open>randperm\<close> in dygraph mode: line 261 returns the handle of the
  operator binding as it is, and the sample operator leaves \<open>stop_gradient\<close> off.
\<close>

theorem stop_gradient_counterexample:
  "fst (randperm sample_env 3 (DtStr ''int64'') None (empty_state True)) = Inr 0 \<and>
   \<not> stop_gradient
       (vars (snd (randperm sample_env 3 (DtStr ''int64'') None (empty_state True))) 0)"
  by (simp add: randperm_def sample_defs)

end
